theory Spec2Isabelle
  imports Complex_Main
begin

section \<open>Values\<close>

text \<open>
  The service of \<^verbatim>\<open>main.py\<close> keeps three tables (users, items, orders) in one
  SQLite file and exposes four handlers per table. The embedding below follows the
  handler functions: what each \<^verbatim>\<open>async def\<close> returns or raises, and what it does to the
  tables. The \<^verbatim>\<open>response_model\<close> of a route decorator is applied where it takes a key
  away from what the function returns, which is line 113; the other response models
  name the keys that the function returns, and there the embedding stops at the value
  of the function.

  An exception is a value. \<^verbatim>\<open>str(e)\<close> of an exception is text produced by library code, so
  it is kept symbolic: \<open>Str e\<close> stands for the string \<^verbatim>\<open>str(e)\<close>, \<open>Lit s\<close> for a string
  written in the source, \<open>Cat\<close> for the two parts of an f-string.
\<close>

datatype fault = Unique_violation | Syntax_error | Unreachable | Int_overflow | Store_full

datatype exc = HTTPException nat msg | StoreError fault
and msg = Lit string | Str exc | Cat msg msg

text \<open>
  A Python \<^verbatim>\<open>float\<close>: a finite number, an infinity, or not-a-number, which the
  JSON reader of Python accepts as \<^verbatim>\<open>NaN\<close>.
\<close>

datatype pyfloat = Finite real | PosInf | NegInf | NaN

text \<open>The pydantic input models, lines 54-67.\<close>

record UserCreate =
  first_name :: string
  last_name :: string
  email :: string
  password :: string

text \<open>
  The fields of an item, with the type of the price left open: a \<^verbatim>\<open>float\<close> in the
  payload (line 63), a \<^verbatim>\<open>float\<close> or \<^verbatim>\<open>None\<close> in a row that is read back.
\<close>

record 'p ItemFields =
  name :: string
  description :: string
  price :: 'p

type_synonym ItemCreate = "pyfloat ItemFields"

type_synonym ItemColumns = "pyfloat option ItemFields"

record OrderCreate =
  user_id :: int
  item_id :: int

text \<open>
  The columns of an order besides its primary key (lines 43-46). \<open>order_date\<close> is a naive
  UTC timestamp, counted in microseconds.
\<close>

record OrderColumns = OrderCreate +
  order_date :: nat
  status :: string

text \<open>
  A row is its primary key together with its other columns; the dictionary
  \<^verbatim>\<open>{**user.dict(), "id": user_id}\<close> has the same shape.
\<close>

record 'a row =
  row_id :: int
  cols :: 'a

record Message =
  message :: string

section \<open>The store\<close>

text \<open>
  The tables keep their rows in insertion order. \<open>available\<close> says whether the database
  answers; when it does not, every statement raises. \<open>random_key\<close> is what SQLite's
  search for a free key comes up with when the largest key is taken (\<open>None\<close> when it
  gives up). \<open>stdout\<close> collects what \<^verbatim>\<open>print\<close> writes.
\<close>

record world =
  users :: "UserCreate row list"
  items :: "ItemColumns row list"
  orders :: "OrderColumns row list"
  available :: bool
  random_key :: "int option"
  stdout :: "msg list"

text \<open>
  An integer that is bound to a statement has to fit in 64 bits; binding another one
  raises \<^verbatim>\<open>OverflowError\<close>.
\<close>

definition in_int64 :: "int \<Rightarrow> bool" where
  "in_int64 i = (- (2 ^ 63) \<le> i \<and> i < 2 ^ 63)"

text \<open>\<^verbatim>\<open>table.select().where(table.id == i)\<close> followed by \<^verbatim>\<open>fetch_one\<close>.\<close>

definition select_by_id :: "'a row list \<Rightarrow> int \<Rightarrow> 'a row option" where
  "select_by_id t i = find (\<lambda>r. row_id r = i) t"

definition fetch_one :: "world \<Rightarrow> 'a row list \<Rightarrow> int \<Rightarrow> exc + 'a row option" where
  "fetch_one w t i =
     (if available w then
        (if in_int64 i then Inr (select_by_id t i) else Inl (StoreError Int_overflow))
      else Inl (StoreError Unreachable))"

text \<open>
  The key SQLite gives a new row of a table whose primary key is an \<^verbatim>\<open>INTEGER\<close> column:
  one more than the largest key in use, 1 in an empty table. When that is more than 64
  bits hold, SQLite looks for a free positive key at random, and the insert fails when
  it finds none.
\<close>

definition next_id :: "'a row list \<Rightarrow> int" where
  "next_id t = (if t = [] then 1 else Max (set (map row_id t)) + 1)"

definition new_key :: "world \<Rightarrow> 'a row list \<Rightarrow> int option" where
  "new_key w t =
     (if in_int64 (next_id t) then Some (next_id t)
      else case random_key w of
        None \<Rightarrow> None
      | Some k \<Rightarrow>
          (if 0 < k \<and> in_int64 k \<and> select_by_id t k = None then Some k else None))"

text \<open>
  What the primary key of a table guarantees: no two rows have the same key, and every
  key fits in 64 bits.
\<close>

definition keys_ok :: "'a row list \<Rightarrow> bool" where
  "keys_ok t = (distinct (map row_id t) \<and> list_all (\<lambda>r. in_int64 (row_id r)) t)"

definition delete_by_id :: "'a row list \<Rightarrow> int \<Rightarrow> 'a row list" where
  "delete_by_id t i = filter (\<lambda>r. row_id r \<noteq> i) t"

definition update_by_id :: "'a row list \<Rightarrow> int \<Rightarrow> ('a \<Rightarrow> 'a) \<Rightarrow> 'a row list" where
  "update_by_id t i f = map (\<lambda>r. if row_id r = i then r\<lparr>cols := f (cols r)\<rparr> else r) t"

text \<open>
  \<^verbatim>\<open>email = Column(String, unique=True, index=True)\<close> (line 26): the table has a unique index
  on \<open>email\<close>, so an insert of an address that a row already holds is refused, and so is
  an update that gives an existing row the address of another row.
\<close>

definition email_taken :: "UserCreate row list \<Rightarrow> string \<Rightarrow> bool" where
  "email_taken t e = list_ex (\<lambda>r. email (cols r) = e) t"

definition email_conflict :: "UserCreate row list \<Rightarrow> int \<Rightarrow> string \<Rightarrow> bool" where
  "email_conflict t i e =
     (list_ex (\<lambda>r. row_id r = i) t \<and> list_ex (\<lambda>r. row_id r \<noteq> i \<and> email (cols r) = e) t)"

definition insert_user :: "UserCreate \<Rightarrow> world \<Rightarrow> (exc + int) \<times> world" where
  "insert_user u w =
     (if available w then
        (if email_taken (users w) (email u) then (Inl (StoreError Unique_violation), w)
         else case new_key w (users w) of
           None \<Rightarrow> (Inl (StoreError Store_full), w)
         | Some k \<Rightarrow> (Inr k, w\<lparr>users := users w @ [\<lparr>row_id = k, cols = u\<rparr>]\<rparr>))
      else (Inl (StoreError Unreachable), w))"

definition update_user_row :: "int \<Rightarrow> UserCreate \<Rightarrow> world \<Rightarrow> (exc + unit) \<times> world" where
  "update_user_row i u w =
     (if available w then
        (if in_int64 i then
           (if email_conflict (users w) i (email u) then (Inl (StoreError Unique_violation), w)
            else (Inr (), w\<lparr>users := update_by_id (users w) i (\<lambda>_. u)\<rparr>))
         else (Inl (StoreError Int_overflow), w))
      else (Inl (StoreError Unreachable), w))"

definition delete_user_row :: "int \<Rightarrow> world \<Rightarrow> (exc + unit) \<times> world" where
  "delete_user_row i w =
     (if available w then
        (if in_int64 i then (Inr (), w\<lparr>users := delete_by_id (users w) i\<rparr>)
         else (Inl (StoreError Int_overflow), w))
      else (Inl (StoreError Unreachable), w))"

text \<open>
  SQLite stores a not-a-number as \<^verbatim>\<open>NULL\<close>, so the price of a stored row is a number or
  nothing.
\<close>

definition item_columns :: "ItemCreate \<Rightarrow> ItemColumns" where
  "item_columns it =
     \<lparr>name = name it, description = description it,
      price = (if price it = NaN then None else Some (price it))\<rparr>"

definition insert_item :: "ItemCreate \<Rightarrow> world \<Rightarrow> (exc + int) \<times> world" where
  "insert_item it w =
     (if available w then
        (case new_key w (items w) of
           None \<Rightarrow> (Inl (StoreError Store_full), w)
         | Some k \<Rightarrow> (Inr k, w\<lparr>items := items w @ [\<lparr>row_id = k, cols = item_columns it\<rparr>]\<rparr>))
      else (Inl (StoreError Unreachable), w))"

definition update_item_row :: "int \<Rightarrow> ItemCreate \<Rightarrow> world \<Rightarrow> (exc + unit) \<times> world" where
  "update_item_row i it w =
     (if available w then
        (if in_int64 i then
           (Inr (), w\<lparr>items := update_by_id (items w) i (\<lambda>_. item_columns it)\<rparr>)
         else (Inl (StoreError Int_overflow), w))
      else (Inl (StoreError Unreachable), w))"

definition delete_item_row :: "int \<Rightarrow> world \<Rightarrow> (exc + unit) \<times> world" where
  "delete_item_row i w =
     (if available w then
        (if in_int64 i then (Inr (), w\<lparr>items := delete_by_id (items w) i\<rparr>)
         else (Inl (StoreError Int_overflow), w))
      else (Inl (StoreError Unreachable), w))"

definition insert_order :: "OrderColumns \<Rightarrow> world \<Rightarrow> (exc + int) \<times> world" where
  "insert_order oc w =
     (if available w then
        (if in_int64 (user_id oc) \<and> in_int64 (item_id oc) then
           (case new_key w (orders w) of
              None \<Rightarrow> (Inl (StoreError Store_full), w)
            | Some k \<Rightarrow> (Inr k, w\<lparr>orders := orders w @ [\<lparr>row_id = k, cols = oc\<rparr>]\<rparr>))
         else (Inl (StoreError Int_overflow), w))
      else (Inl (StoreError Unreachable), w))"

definition delete_order_row :: "int \<Rightarrow> world \<Rightarrow> (exc + unit) \<times> world" where
  "delete_order_row i w =
     (if available w then
        (if in_int64 i then (Inr (), w\<lparr>orders := delete_by_id (orders w) i\<rparr>)
         else (Inl (StoreError Int_overflow), w))
      else (Inl (StoreError Unreachable), w))"

section \<open>The statement text of the order update\<close>

text \<open>
  Line 211 builds its statement as text:
  \<^verbatim>\<open>text(f"UPDATE orders SET status='{status}' WHERE id={order_id}")\<close>.
  \<open>str_int\<close> is Python's decimal rendering of an integer.
\<close>

abbreviation apostrophe :: char where
  "apostrophe \<equiv> CHR 0x27"

fun str_nat :: "nat \<Rightarrow> string" where
  "str_nat n =
     (if n < 10 then [char_of (48 + n)]
      else str_nat (n div 10) @ [char_of (48 + n mod 10)])"

declare str_nat.simps [simp del]

definition str_int :: "int \<Rightarrow> string" where
  "str_int i = (if i < 0 then CHR ''-'' # str_nat (nat (- i)) else str_nat (nat i))"

definition update_status_text :: "string \<Rightarrow> int \<Rightarrow> string" where
  "update_status_text new_status order_id =
     ''UPDATE orders SET status='' @ [apostrophe] @ new_status @ [apostrophe]
       @ '' WHERE id='' @ str_int order_id"

text \<open>
  What the database does with such a text. A string literal of SQL starts after an
  apostrophe and runs to the next apostrophe that is not doubled; a doubled apostrophe
  inside it stands for one apostrophe. \<open>string_literal\<close> reads the text after the opening
  apostrophe and gives the value of the literal and the text after its end, or \<open>None\<close>
  when the text ends before the literal does.
\<close>

fun strip_prefix :: "string \<Rightarrow> string \<Rightarrow> string option" where
  "strip_prefix [] s = Some s"
| "strip_prefix (p # ps) [] = None"
| "strip_prefix (p # ps) (c # cs) = (if p = c then strip_prefix ps cs else None)"

fun string_literal :: "string \<Rightarrow> (string \<times> string) option" where
  "string_literal [] = None"
| "string_literal [c] = (if c = apostrophe then Some ([], []) else None)"
| "string_literal (c # d # s) =
     (if c = apostrophe then
        (if d = apostrophe then
           map_option (\<lambda>(v, rest). (apostrophe # v, rest)) (string_literal s)
         else Some ([], d # s))
      else map_option (\<lambda>(v, rest). (c # v, rest)) (string_literal (d # s)))"

definition is_digit :: "char \<Rightarrow> bool" where
  "is_digit c = (48 \<le> (of_char c :: nat) \<and> (of_char c :: nat) \<le> 57)"

definition parse_nat :: "string \<Rightarrow> nat option" where
  "parse_nat s =
     (if s = [] then None
      else if list_all is_digit s then Some (foldl (\<lambda>a c. 10 * a + (of_char c - 48)) 0 s)
      else None)"

fun parse_int :: "string \<Rightarrow> int option" where
  "parse_int [] = None"
| "parse_int (c # s) =
     (if c = CHR ''-'' then map_option (\<lambda>n. - int n) (parse_nat s)
      else map_option int (parse_nat (c # s)))"

text \<open>
  \<^verbatim>\<open>--\<close> starts a comment that runs to the end of the line. \<open>line_comment s\<close> holds when
  \<open>s\<close> is nothing but blanks and one such comment that reaches the end of the text.
\<close>

fun skip_spaces :: "string \<Rightarrow> string" where
  "skip_spaces [] = []"
| "skip_spaces (c # s) = (if c = CHR '' '' then skip_spaces s else c # s)"

definition line_comment :: "string \<Rightarrow> bool" where
  "line_comment s =
     (case strip_prefix ''--'' (skip_spaces s) of
        None \<Rightarrow> False
      | Some t \<Rightarrow> list_all (\<lambda>c. c \<noteq> CHR 0x0A) t)"

text \<open>
  Only texts made of letters, digits, blanks, apostrophes, \<^verbatim>\<open>=\<close> and \<^verbatim>\<open>-\<close> are read
  here. Other characters may mean something to the layers between the handler and SQLite
  (a colon or a backslash is bind-parameter syntax for \<^verbatim>\<open>text()\<close>, a percent sign is
  a format character), and a text that has one is \<open>Unmodelled\<close>.
\<close>

definition is_alnum :: "char \<Rightarrow> bool" where
  "is_alnum c =
     ((48 \<le> (of_char c :: nat) \<and> (of_char c :: nat) \<le> 57)
      \<or> (65 \<le> (of_char c :: nat) \<and> (of_char c :: nat) \<le> 90)
      \<or> (97 \<le> (of_char c :: nat) \<and> (of_char c :: nat) \<le> 122))"

definition text_char :: "char \<Rightarrow> bool" where
  "text_char c =
     (is_alnum c \<or> c = CHR '' '' \<or> c = apostrophe \<or> c = CHR ''='' \<or> c = CHR ''-'')"

text \<open>
  \<open>Set_status v i\<close>: the text is \<^verbatim>\<open>UPDATE orders SET status='...' WHERE id=i\<close> with one
  well-formed literal of value \<open>v\<close>. \<open>Set_status_all v\<close>: after the literal the text is
  only a comment, so the statement has no \<^verbatim>\<open>WHERE\<close> clause and sets the status of every
  row. \<open>Unterminated\<close>: the literal never ends, which SQLite refuses as a syntax error.
  \<open>Unmodelled\<close>: any other text, among them every text that goes on after the literal
  with something else than a comment or the \<^verbatim>\<open>WHERE\<close> clause of line 211.
\<close>

datatype statement = Set_status string int | Set_status_all string | Unterminated | Unmodelled

definition parse_statement :: "string \<Rightarrow> statement" where
  "parse_statement s =
     (if list_all text_char s then
        (case strip_prefix (''UPDATE orders SET status='' @ [apostrophe]) s of
           None \<Rightarrow> Unmodelled
         | Some body \<Rightarrow>
             (case string_literal body of
                None \<Rightarrow> Unterminated
              | Some (v, rest) \<Rightarrow>
                  (if line_comment rest then Set_status_all v
                   else case strip_prefix '' WHERE id='' rest of
                     None \<Rightarrow> Unmodelled
                   | Some ds \<Rightarrow>
                       (case parse_int ds of
                          None \<Rightarrow> Unmodelled
                        | Some i \<Rightarrow> Set_status v i))))
      else Unmodelled)"

text \<open>
  \<open>engine\<close> is what the database does with a text that is \<open>Unmodelled\<close>; it is a
  parameter, so that nothing is assumed about it.
\<close>

type_synonym engine = "string \<Rightarrow> world \<Rightarrow> (exc + unit) \<times> world"

definition execute_text :: "engine \<Rightarrow> string \<Rightarrow> world \<Rightarrow> (exc + unit) \<times> world" where
  "execute_text engine s w =
     (if available w then
        (case parse_statement s of
           Set_status v i \<Rightarrow>
             (Inr (), w\<lparr>orders := update_by_id (orders w) i (\<lambda>c. c\<lparr>status := v\<rparr>)\<rparr>)
         | Set_status_all v \<Rightarrow>
             (Inr (), w\<lparr>orders := map (\<lambda>r. r\<lparr>cols := (cols r)\<lparr>status := v\<rparr>\<rparr>) (orders w)\<rparr>)
         | Unterminated \<Rightarrow> (Inl (StoreError Syntax_error), w)
         | Unmodelled \<Rightarrow> engine s w)
      else (Inl (StoreError Unreachable), w))"

text \<open>A status is plain when it is made of letters, digits and blanks.\<close>

definition plain_status :: "string \<Rightarrow> bool" where
  "plain_status s = list_all (\<lambda>c. is_alnum c \<or> c = CHR '' '') s"

section \<open>The handlers\<close>

text \<open>
  Every handler is one \<^verbatim>\<open>try\<close> block with one clause \<^verbatim>\<open>except Exception as e\<close>. The
  block is the definition named \<open>_try\<close>; the handler applies the clause to what the block
  raises. \<^verbatim>\<open>HTTPException\<close> is a subclass of \<^verbatim>\<open>Exception\<close>, so the clause also
  catches the exceptions that the block raises itself.
\<close>

definition except_Exception :: "(exc + 'a) \<times> world \<Rightarrow> (exc + 'a) \<times> world" where
  "except_Exception r =
     (case r of
        (Inl e, w) \<Rightarrow> (Inl (HTTPException 500 (Str e)), w)
      | (Inr v, w) \<Rightarrow> (Inr v, w))"

subsection \<open>Users, lines 91-129\<close>

definition create_user_try :: "UserCreate \<Rightarrow> world \<Rightarrow> (exc + UserCreate row) \<times> world" where
  "create_user_try user w =
     (case insert_user user w of
        (Inl e, w') \<Rightarrow> (Inl e, w')
      | (Inr new_id, w') \<Rightarrow> (Inr \<lparr>row_id = new_id, cols = user\<rparr>, w'))"

definition create_user :: "UserCreate \<Rightarrow> world \<Rightarrow> (exc + UserCreate row) \<times> world" where
  "create_user user w = except_Exception (create_user_try user w)"

definition read_user_try :: "int \<Rightarrow> world \<Rightarrow> (exc + UserCreate row) \<times> world" where
  "read_user_try uid w =
     (case fetch_one w (users w) uid of
        Inl e \<Rightarrow> (Inl e, w)
      | Inr None \<Rightarrow> (Inl (HTTPException 404 (Lit ''User not found'')), w)
      | Inr (Some user) \<Rightarrow> (Inr user, w))"

text \<open>Lines 109-111: the clause of \<open>read_user\<close> prints the exception and raises a fixed text.\<close>

definition read_user :: "int \<Rightarrow> world \<Rightarrow> (exc + UserCreate row) \<times> world" where
  "read_user uid w =
     (case read_user_try uid w of
        (Inl e, w') \<Rightarrow>
          (Inl (HTTPException 500 (Lit ''Internal Server Error'')),
           w'\<lparr>stdout := stdout w' @ [Cat (Lit ''Exception in read_user: '') (Str e)]\<rparr>)
      | (Inr v, w') \<Rightarrow> (Inr v, w'))"

definition update_user_try ::
  "int \<Rightarrow> UserCreate \<Rightarrow> world \<Rightarrow> (exc + UserCreate row) \<times> world" where
  "update_user_try uid user w =
     (case update_user_row uid user w of
        (Inl e, w') \<Rightarrow> (Inl e, w')
      | (Inr _, w') \<Rightarrow> (Inr \<lparr>row_id = uid, cols = user\<rparr>, w'))"

text \<open>
  \<open>update_user_function\<close> is the function of lines 114-120. Line 113 gives the route
  \<^verbatim>\<open>response_model=UserCreate\<close>, the model of lines 54-58, which has no \<^verbatim>\<open>id\<close>: what the
  function returns is cut down to the four fields of that model. An exception passes
  through as it is.
\<close>

definition update_user_function ::
  "int \<Rightarrow> UserCreate \<Rightarrow> world \<Rightarrow> (exc + UserCreate row) \<times> world" where
  "update_user_function uid user w = except_Exception (update_user_try uid user w)"

definition response_model_UserCreate ::
  "(exc + UserCreate row) \<times> world \<Rightarrow> (exc + UserCreate) \<times> world" where
  "response_model_UserCreate r =
     (case r of
        (Inl e, w) \<Rightarrow> (Inl e, w)
      | (Inr v, w) \<Rightarrow> (Inr (cols v), w))"

definition update_user ::
  "int \<Rightarrow> UserCreate \<Rightarrow> world \<Rightarrow> (exc + UserCreate) \<times> world" where
  "update_user uid user w = response_model_UserCreate (update_user_function uid user w)"

definition delete_user_try :: "int \<Rightarrow> world \<Rightarrow> (exc + Message) \<times> world" where
  "delete_user_try uid w =
     (case delete_user_row uid w of
        (Inl e, w') \<Rightarrow> (Inl e, w')
      | (Inr _, w') \<Rightarrow> (Inr \<lparr>message = ''User deleted''\<rparr>, w'))"

definition delete_user :: "int \<Rightarrow> world \<Rightarrow> (exc + Message) \<times> world" where
  "delete_user uid w = except_Exception (delete_user_try uid w)"

subsection \<open>Items, lines 133-176\<close>

definition create_item_try :: "ItemCreate \<Rightarrow> world \<Rightarrow> (exc + ItemCreate row) \<times> world" where
  "create_item_try item w =
     (case insert_item item w of
        (Inl e, w') \<Rightarrow> (Inl e, w')
      | (Inr new_id, w') \<Rightarrow> (Inr \<lparr>row_id = new_id, cols = item\<rparr>, w'))"

definition create_item :: "ItemCreate \<Rightarrow> world \<Rightarrow> (exc + ItemCreate row) \<times> world" where
  "create_item item w = except_Exception (create_item_try item w)"

definition read_item_try :: "int \<Rightarrow> world \<Rightarrow> (exc + ItemColumns row) \<times> world" where
  "read_item_try iid w =
     (case fetch_one w (items w) iid of
        Inl e \<Rightarrow> (Inl e, w)
      | Inr None \<Rightarrow> (Inl (HTTPException 404 (Lit ''Item not found'')), w)
      | Inr (Some item) \<Rightarrow> (Inr item, w))"

definition read_item :: "int \<Rightarrow> world \<Rightarrow> (exc + ItemColumns row) \<times> world" where
  "read_item iid w = except_Exception (read_item_try iid w)"

definition update_item_try ::
  "int \<Rightarrow> ItemCreate \<Rightarrow> world \<Rightarrow> (exc + ItemCreate row) \<times> world" where
  "update_item_try iid item w =
     (case update_item_row iid item w of
        (Inl e, w') \<Rightarrow> (Inl e, w')
      | (Inr _, w') \<Rightarrow> (Inr \<lparr>row_id = iid, cols = item\<rparr>, w'))"

definition update_item ::
  "int \<Rightarrow> ItemCreate \<Rightarrow> world \<Rightarrow> (exc + ItemCreate row) \<times> world" where
  "update_item iid item w = except_Exception (update_item_try iid item w)"

definition delete_item_try :: "int \<Rightarrow> world \<Rightarrow> (exc + Message) \<times> world" where
  "delete_item_try iid w =
     (case fetch_one w (items w) iid of
        Inl e \<Rightarrow> (Inl e, w)
      | Inr None \<Rightarrow> (Inl (HTTPException 404 (Lit ''Item not found'')), w)
      | Inr (Some existing_item) \<Rightarrow>
          (case delete_item_row iid w of
             (Inl e, w') \<Rightarrow> (Inl e, w')
           | (Inr _, w') \<Rightarrow> (Inr \<lparr>message = ''Item deleted successfully''\<rparr>, w')))"

definition delete_item :: "int \<Rightarrow> world \<Rightarrow> (exc + Message) \<times> world" where
  "delete_item iid w = except_Exception (delete_item_try iid w)"

subsection \<open>Orders, lines 180-234\<close>

text \<open>
  \<open>create_order\<close> reads the clock twice: \<open>now1\<close> is the value of
  \<^verbatim>\<open>datetime.utcnow()\<close> on line 183, \<open>now2\<close> the value on line 185.
\<close>

definition create_order_try ::
  "nat \<Rightarrow> nat \<Rightarrow> OrderCreate \<Rightarrow> world \<Rightarrow> (exc + OrderColumns row) \<times> world" where
  "create_order_try now1 now2 order w =
     (case insert_order \<lparr>user_id = user_id order, item_id = item_id order,
                          order_date = now1, status = ''pending''\<rparr> w of
        (Inl e, w') \<Rightarrow> (Inl e, w')
      | (Inr new_id, w') \<Rightarrow>
          (Inr \<lparr>row_id = new_id,
                cols = \<lparr>user_id = user_id order, item_id = item_id order,
                         order_date = now2, status = ''pending''\<rparr>\<rparr>, w'))"

definition create_order ::
  "nat \<Rightarrow> nat \<Rightarrow> OrderCreate \<Rightarrow> world \<Rightarrow> (exc + OrderColumns row) \<times> world" where
  "create_order now1 now2 order w = except_Exception (create_order_try now1 now2 order w)"

definition read_order_try :: "int \<Rightarrow> world \<Rightarrow> (exc + OrderColumns row) \<times> world" where
  "read_order_try oid w =
     (case fetch_one w (orders w) oid of
        Inl e \<Rightarrow> (Inl e, w)
      | Inr None \<Rightarrow> (Inl (HTTPException 404 (Lit ''Order not found'')), w)
      | Inr (Some order) \<Rightarrow> (Inr order, w))"

definition read_order :: "int \<Rightarrow> world \<Rightarrow> (exc + OrderColumns row) \<times> world" where
  "read_order oid w = except_Exception (read_order_try oid w)"

text \<open>
  \<^verbatim>\<open>status: str = "pending"\<close>: the argument is \<open>None\<close> when the request leaves it out.
\<close>

definition update_order_try ::
  "engine \<Rightarrow> int \<Rightarrow> string option \<Rightarrow> world \<Rightarrow> (exc + OrderColumns row) \<times> world" where
  "update_order_try engine oid status_arg w =
     (let new_status = (case status_arg of None \<Rightarrow> ''pending'' | Some s \<Rightarrow> s) in
      case fetch_one w (orders w) oid of
        Inl e \<Rightarrow> (Inl e, w)
      | Inr None \<Rightarrow> (Inl (HTTPException 404 (Lit ''Order not found'')), w)
      | Inr (Some existing_order) \<Rightarrow>
          (case execute_text engine (update_status_text new_status oid) w of
             (Inl e, w') \<Rightarrow> (Inl e, w')
           | (Inr _, w') \<Rightarrow>
               (Inr (existing_order\<lparr>cols := (cols existing_order)\<lparr>status := new_status\<rparr>\<rparr>),
                w')))"

definition update_order ::
  "engine \<Rightarrow> int \<Rightarrow> string option \<Rightarrow> world \<Rightarrow> (exc + OrderColumns row) \<times> world" where
  "update_order engine oid status_arg w =
     except_Exception (update_order_try engine oid status_arg w)"

definition delete_order_try :: "int \<Rightarrow> world \<Rightarrow> (exc + Message) \<times> world" where
  "delete_order_try oid w =
     (case fetch_one w (orders w) oid of
        Inl e \<Rightarrow> (Inl e, w)
      | Inr None \<Rightarrow> (Inl (HTTPException 404 (Lit ''Order not found'')), w)
      | Inr (Some existing_order) \<Rightarrow>
          (case delete_order_row oid w of
             (Inl e, w') \<Rightarrow> (Inl e, w')
           | (Inr _, w') \<Rightarrow> (Inr \<lparr>message = ''Order deleted successfully''\<rparr>, w')))"

definition delete_order :: "int \<Rightarrow> world \<Rightarrow> (exc + Message) \<times> world" where
  "delete_order oid w = except_Exception (delete_order_try oid w)"

section \<open>A store to compute with\<close>

definition empty_store :: world where
  "empty_store = \<lparr>users = [], items = [], orders = [], available = True, random_key = None, stdout = []\<rparr>"

text \<open>
  \<open>small_store\<close> holds two users, one item and two orders; \<open>down_store\<close> is a database
  that does not answer. \<open>idle_engine\<close> does nothing with a text outside the modelled ones.
\<close>

definition alice :: UserCreate where
  "alice = \<lparr>first_name = ''Alice'', last_name = ''Ames'',
            email = ''alice@example.com'', password = ''correct horse''\<rparr>"

definition bob :: UserCreate where
  "bob = \<lparr>first_name = ''Bob'', last_name = ''Birch'',
          email = ''bob@example.com'', password = ''hunter2''\<rparr>"

definition carol :: UserCreate where
  "carol = \<lparr>first_name = ''Carol'', last_name = ''Cole'',
            email = ''carol@example.com'', password = ''12345''\<rparr>"

definition widget :: ItemCreate where
  "widget = \<lparr>name = ''Widget'', description = ''A widget'', price = Finite 9.99\<rparr>"

definition order1 :: "OrderColumns row" where
  "order1 = \<lparr>row_id = 1, cols = \<lparr>user_id = 1, item_id = 1, order_date = 100,
                                     status = ''pending''\<rparr>\<rparr>"

definition order2 :: "OrderColumns row" where
  "order2 = \<lparr>row_id = 2, cols = \<lparr>user_id = 2, item_id = 1, order_date = 200,
                                     status = ''paid''\<rparr>\<rparr>"

definition small_store :: world where
  "small_store =
     \<lparr>users = [\<lparr>row_id = 1, cols = alice\<rparr>, \<lparr>row_id = 2, cols = bob\<rparr>],
      items = [\<lparr>row_id = 1, cols = item_columns widget\<rparr>],
      orders = [order1, order2],
      available = True, random_key = None, stdout = []\<rparr>"

definition down_store :: world where
  "down_store = \<lparr>users = [], items = [], orders = [], available = False, random_key = None, stdout = []\<rparr>"

definition idle_engine :: engine where
  "idle_engine s w = (Inr (), w)"

text \<open>
  Three status strings with an apostrophe in them: \<^verbatim>\<open>'\<close>, \<^verbatim>\<open>it''s\<close> and \<^verbatim>\<open>x' --\<close>.
\<close>

definition status_quote :: string where
  "status_quote = [apostrophe]"

definition status_two_quotes :: string where
  "status_two_quotes = ''it'' @ [apostrophe, apostrophe] @ ''s''"

definition status_comment :: string where
  "status_comment = ''x'' @ [apostrophe] @ '' --''"


definition far_id :: int where
  "far_id = 2 ^ 63"

definition far_order :: OrderCreate where
  "far_order = \<lparr>user_id = 2 ^ 63, item_id = 1\<rparr>"

section \<open>Lookups that find nothing\<close>

lemmas store_defs = small_store_def alice_def bob_def carol_def widget_def order1_def order2_def

lemma in_int64_small: "in_int64 1" "in_int64 2" "in_int64 3" "in_int64 7"
  by (simp_all add: in_int64_def)

lemma select_by_id_Nil: "select_by_id [] i = None"
  by (simp add: select_by_id_def)

lemma read_user_missing:
  "available w \<Longrightarrow> in_int64 i \<Longrightarrow> select_by_id (users w) i = None \<Longrightarrow>
   fst (read_user i w) = Inl (HTTPException 500 (Lit ''Internal Server Error''))"
  by (simp add: read_user_def read_user_try_def fetch_one_def)

lemma read_item_missing:
  "available w \<Longrightarrow> in_int64 i \<Longrightarrow> select_by_id (items w) i = None \<Longrightarrow>
   fst (read_item i w)
     = Inl (HTTPException 500 (Str (HTTPException 404 (Lit ''Item not found''))))"
  by (simp add: read_item_def read_item_try_def fetch_one_def except_Exception_def)

lemma read_order_missing:
  "available w \<Longrightarrow> in_int64 i \<Longrightarrow> select_by_id (orders w) i = None \<Longrightarrow>
   fst (read_order i w)
     = Inl (HTTPException 500 (Str (HTTPException 404 (Lit ''Order not found''))))"
  by (simp add: read_order_def read_order_try_def fetch_one_def except_Exception_def)

lemma update_order_missing:
  "available w \<Longrightarrow> in_int64 i \<Longrightarrow> select_by_id (orders w) i = None \<Longrightarrow>
   update_order engine i st w
     = (Inl (HTTPException 500 (Str (HTTPException 404 (Lit ''Order not found'')))), w)"
  by (simp add: update_order_def update_order_try_def fetch_one_def except_Exception_def)

lemma delete_item_missing:
  "available w \<Longrightarrow> in_int64 i \<Longrightarrow> select_by_id (items w) i = None \<Longrightarrow>
   delete_item i w
     = (Inl (HTTPException 500 (Str (HTTPException 404 (Lit ''Item not found'')))), w)"
  by (simp add: delete_item_def delete_item_try_def fetch_one_def except_Exception_def)

text \<open>
  C1. A read of an id that no row has should answer not-found (404). In the code the 404
  is raised inside the \<^verbatim>\<open>try\<close> block and caught by \<^verbatim>\<open>except Exception\<close>, so each of the
  three reads answers 500 on the empty store: \<open>read_user\<close> with the fixed text, \<open>read_item\<close>
  and \<open>read_order\<close> with the text of the 404 they swallowed.
\<close>

theorem read_missing_answers_500:
  "fst (read_user 1 empty_store) = Inl (HTTPException 500 (Lit ''Internal Server Error''))
   \<and> fst (read_item 1 empty_store)
       = Inl (HTTPException 500 (Str (HTTPException 404 (Lit ''Item not found''))))
   \<and> fst (read_order 1 empty_store)
       = Inl (HTTPException 500 (Str (HTTPException 404 (Lit ''Order not found''))))"
  by (simp add: read_user_missing read_item_missing read_order_missing
      empty_store_def select_by_id_Nil in_int64_small)

text \<open>
  C4. An order update of an id that no order has should answer not-found (404). On the
  empty store it answers 500, for the reason given at C1, whatever the status argument
  and whatever the database does with texts outside the modelled ones.
\<close>

theorem update_order_missing_answers_500:
  "fst (update_order engine 1 None empty_store)
     = Inl (HTTPException 500 (Str (HTTPException 404 (Lit ''Order not found''))))"
  by (simp add: update_order_missing empty_store_def select_by_id_Nil in_int64_small)

text \<open>
  When the item exists, \<open>delete_item\<close> removes the rows of that id and returns its fixed
  message; a read of the id then finds nothing.
\<close>

lemma select_by_id_deleted: "select_by_id (delete_by_id t i) i = None"
  by (simp add: select_by_id_def delete_by_id_def find_None_iff)

lemma delete_item_found:
  "available w \<Longrightarrow> in_int64 i \<Longrightarrow> select_by_id (items w) i = Some r \<Longrightarrow>
   delete_item i w
     = (Inr \<lparr>message = ''Item deleted successfully''\<rparr>, w\<lparr>items := delete_by_id (items w) i\<rparr>)"
  by (simp add: delete_item_def delete_item_try_def delete_item_row_def fetch_one_def
      except_Exception_def)

text \<open>
  C5. An item delete of an id that no item has should answer not-found (404). On the
  empty store it answers 500, for the reason given at C1.
\<close>

theorem delete_item_missing_answers_500:
  "fst (delete_item 1 empty_store)
     = Inl (HTTPException 500 (Str (HTTPException 404 (Lit ''Item not found''))))"
  by (simp add: delete_item_missing empty_store_def select_by_id_Nil in_int64_small)

section \<open>Deletes and the orders table\<close>

text \<open>
  C7. In every state of the store, deleting a user and deleting an item leave the orders
  table as it was, whatever ids the orders refer to: no delete cascades.
\<close>

theorem delete_keeps_orders:
  "orders (snd (delete_user i w)) = orders w \<and> orders (snd (delete_item i w)) = orders w"
  by (simp add: delete_user_def delete_user_try_def delete_user_row_def
      delete_item_def delete_item_try_def delete_item_row_def fetch_one_def
      except_Exception_def split: option.split)

section \<open>Create, then read\<close>

lemma next_id_above: "r \<in> set t \<Longrightarrow> row_id r < next_id t"
proof -
  assume r: "r \<in> set t"
  then have ne: "t \<noteq> []" by auto
  have "row_id r \<le> Max (set (map row_id t))"
    using r by (intro Max_ge) auto
  with ne show ?thesis by (simp add: next_id_def)
qed

lemma select_by_id_fresh: "select_by_id t (next_id t) = None"
proof -
  have "\<not> (\<exists>x. x \<in> set t \<and> row_id x = next_id t)"
  proof
    assume "\<exists>x. x \<in> set t \<and> row_id x = next_id t"
    then obtain x where "x \<in> set t" and "row_id x = next_id t" by blast
    with next_id_above [of x t] show False by simp
  qed
  then show ?thesis by (simp add: select_by_id_def find_None_iff)
qed

lemma new_key_free:
  assumes "new_key w t = Some k"
  shows "in_int64 k \<and> select_by_id t k = None"
proof (cases "in_int64 (next_id t)")
  case True
  with assms have "k = next_id t" by (simp add: new_key_def)
  with True show ?thesis by (simp add: select_by_id_fresh)
next
  case False
  with assms show ?thesis
    by (auto simp: new_key_def split: option.splits if_splits)
qed

lemma new_key_next: "in_int64 (next_id t) \<Longrightarrow> new_key w t = Some (next_id t)"
  by (simp add: new_key_def)

lemma select_by_id_append:
  "select_by_id (t @ [r]) i =
     (case select_by_id t i of None \<Rightarrow> (if row_id r = i then Some r else None) | Some x \<Rightarrow> Some x)"
  unfolding select_by_id_def by (induction t) simp_all

lemma select_by_id_new:
  "select_by_id t k = None \<Longrightarrow>
   select_by_id (t @ [\<lparr>row_id = k, cols = c\<rparr>]) k = Some \<lparr>row_id = k, cols = c\<rparr>"
  by (simp add: select_by_id_append)



lemma create_order_Inr:
  assumes "fst (create_order now1 now2 oc w) = Inr c"
  shows "available w \<and> new_key w (orders w) = Some (row_id c)
       \<and> cols c = \<lparr>user_id = user_id oc, item_id = item_id oc,
                     order_date = now2, status = ''pending''\<rparr>
       \<and> snd (create_order now1 now2 oc w)
           = w\<lparr>orders := orders w @ [\<lparr>row_id = row_id c,
                 cols = \<lparr>user_id = user_id oc, item_id = item_id oc,
                          order_date = now1, status = ''pending''\<rparr>\<rparr>]\<rparr>"
  using assms
  by (auto simp: create_order_def create_order_try_def insert_order_def except_Exception_def
      split: if_splits option.splits)



lemma create_order_ok:
  "available w \<Longrightarrow> in_int64 (user_id oc) \<Longrightarrow> in_int64 (item_id oc) \<Longrightarrow>
   in_int64 (next_id (orders w)) \<Longrightarrow>
   create_order now1 now2 oc w =
     (Inr \<lparr>row_id = next_id (orders w),
           cols = \<lparr>user_id = user_id oc, item_id = item_id oc,
                    order_date = now2, status = ''pending''\<rparr>\<rparr>,
      w\<lparr>orders := orders w @ [\<lparr>row_id = next_id (orders w),
           cols = \<lparr>user_id = user_id oc, item_id = item_id oc,
                    order_date = now1, status = ''pending''\<rparr>\<rparr>]\<rparr>)"
  by (simp add: create_order_def create_order_try_def insert_order_def except_Exception_def
      new_key_next)



lemma read_user_found:
  "available w \<Longrightarrow> in_int64 i \<Longrightarrow> select_by_id (users w) i = Some r \<Longrightarrow>
   read_user i w = (Inr r, w)"
  by (simp add: read_user_def read_user_try_def fetch_one_def)


lemma read_order_found:
  "available w \<Longrightarrow> in_int64 i \<Longrightarrow> select_by_id (orders w) i = Some r \<Longrightarrow>
   read_order i w = (Inr r, w)"
  by (simp add: read_order_def read_order_try_def fetch_one_def except_Exception_def)



lemma read_after_create_order:
  assumes "fst (create_order now1 now2 oc w) = Inr c"
  shows "fst (read_order (row_id c) (snd (create_order now1 now2 oc w)))
           = Inr \<lparr>row_id = row_id c,
                   cols = \<lparr>user_id = user_id oc, item_id = item_id oc,
                            order_date = now1, status = ''pending''\<rparr>\<rparr>"
proof -
  note f = create_order_Inr [OF assms]
  from f new_key_free [of w "orders w" "row_id c"]
  have k: "in_int64 (row_id c)" "select_by_id (orders w) (row_id c) = None" by simp_all
  from f k show ?thesis by (simp add: read_order_found select_by_id_new)
qed





text \<open>
  C8. Whenever \<open>create_order\<close> returns a record, its \<open>order_date\<close> is the second clock
  value; the row that went into the table has the first clock value, and so has the record
  that a read of the new id returns; when the two clock values differ, the record read is
  not the record returned.
\<close>

theorem create_order_reads_clock_twice:
  "fst (create_order now1 now2 oc w) = Inr c \<longrightarrow>
     order_date (cols c) = now2
     \<and> \<lparr>row_id = row_id c, cols = (cols c)\<lparr>order_date := now1\<rparr>\<rparr>
         \<in> set (orders (snd (create_order now1 now2 oc w)))
     \<and> (\<exists>r. fst (read_order (row_id c) (snd (create_order now1 now2 oc w))) = Inr r
           \<and> order_date (cols r) = now1 \<and> (now1 \<noteq> now2 \<longrightarrow> r \<noteq> c))"
proof
  assume a: "fst (create_order now1 now2 oc w) = Inr c"
  note f = create_order_Inr [OF a]
  have d: "order_date (cols c) = now2"
    using f by simp
  have m: "\<lparr>row_id = row_id c, cols = (cols c)\<lparr>order_date := now1\<rparr>\<rparr>
         \<in> set (orders (snd (create_order now1 now2 oc w)))"
    using f by simp
  let ?R = "\<lparr>row_id = row_id c,
             cols = \<lparr>user_id = user_id oc, item_id = item_id oc,
                      order_date = now1, status = ''pending''\<rparr>\<rparr>"
  have rd: "fst (read_order (row_id c) (snd (create_order now1 now2 oc w))) = Inr ?R"
    by (rule read_after_create_order [OF a])
  have ne: "now1 \<noteq> now2 \<longrightarrow> ?R \<noteq> c"
  proof (intro impI notI)
    assume "now1 \<noteq> now2" and "?R = c"
    from this(2) have "order_date (cols ?R) = order_date (cols c)" by (rule arg_cong)
    with d \<open>now1 \<noteq> now2\<close> show False by simp
  qed
  have r: "\<exists>r. fst (read_order (row_id c) (snd (create_order now1 now2 oc w))) = Inr r
           \<and> order_date (cols r) = now1 \<and> (now1 \<noteq> now2 \<longrightarrow> r \<noteq> c)"
    using rd ne by (intro exI [of _ ?R]) simp
  from d m r show "order_date (cols c) = now2
     \<and> \<lparr>row_id = row_id c, cols = (cols c)\<lparr>order_date := now1\<rparr>\<rparr>
         \<in> set (orders (snd (create_order now1 now2 oc w)))
     \<and> (\<exists>r. fst (read_order (row_id c) (snd (create_order now1 now2 oc w))) = Inr r
           \<and> order_date (cols r) = now1 \<and> (now1 \<noteq> now2 \<longrightarrow> r \<noteq> c))"
    by (intro conjI)
qed

theorem create_order_reads_clock_twice_witness:
  "fst (create_order 5 7 \<lparr>user_id = 1, item_id = 1\<rparr> empty_store)
       = Inr \<lparr>row_id = 1, cols = \<lparr>user_id = 1, item_id = 1, order_date = 7,
                                      status = ''pending''\<rparr>\<rparr>
   \<and> orders (snd (create_order 5 7 \<lparr>user_id = 1, item_id = 1\<rparr> empty_store))
       = [\<lparr>row_id = 1, cols = \<lparr>user_id = 1, item_id = 1, order_date = 5,
                                  status = ''pending''\<rparr>\<rparr>]
   \<and> (\<exists>r. fst (read_order 1 (snd (create_order 5 7 \<lparr>user_id = 1, item_id = 1\<rparr> empty_store)))
           = Inr r \<and> order_date (cols r) = 5
         \<and> r \<noteq> \<lparr>row_id = 1, cols = \<lparr>user_id = 1, item_id = 1, order_date = 7,
                                        status = ''pending''\<rparr>\<rparr>)"
proof -
  have e: "available empty_store" "next_id (orders empty_store) = 1"
    "orders empty_store = []"
    by (simp_all add: empty_store_def next_id_def)
  have co: "create_order 5 7 \<lparr>user_id = 1, item_id = 1\<rparr> empty_store
      = (Inr \<lparr>row_id = 1, cols = \<lparr>user_id = 1, item_id = 1, order_date = 7,
                                     status = ''pending''\<rparr>\<rparr>,
         empty_store\<lparr>orders := orders empty_store @ [\<lparr>row_id = 1,
           cols = \<lparr>user_id = 1, item_id = 1, order_date = 5, status = ''pending''\<rparr>\<rparr>]\<rparr>)"
    using create_order_ok [of empty_store "\<lparr>user_id = 1, item_id = 1\<rparr>" 5 7] e
    by (simp add: in_int64_small)
  have c: "fst (create_order 5 7 \<lparr>user_id = 1, item_id = 1\<rparr> empty_store)
       = Inr \<lparr>row_id = 1, cols = \<lparr>user_id = 1, item_id = 1, order_date = 7,
                                      status = ''pending''\<rparr>\<rparr>"
    by (simp add: co)
  have t: "orders (snd (create_order 5 7 \<lparr>user_id = 1, item_id = 1\<rparr> empty_store))
       = [\<lparr>row_id = 1, cols = \<lparr>user_id = 1, item_id = 1, order_date = 5,
                                  status = ''pending''\<rparr>\<rparr>]"
    by (simp add: co e)
  have r: "\<exists>r. fst (read_order 1 (snd (create_order 5 7 \<lparr>user_id = 1, item_id = 1\<rparr> empty_store)))
           = Inr r \<and> order_date (cols r) = 5
         \<and> r \<noteq> \<lparr>row_id = 1, cols = \<lparr>user_id = 1, item_id = 1, order_date = 7,
                                        status = ''pending''\<rparr>\<rparr>"
    using create_order_reads_clock_twice
      [where ?now1.0 = 5 and ?now2.0 = 7 and oc = "\<lparr>user_id = 1, item_id = 1\<rparr>"
         and w = empty_store
         and c = "\<lparr>row_id = 1, cols = \<lparr>user_id = 1, item_id = 1, order_date = 7,
                                      status = ''pending''\<rparr>\<rparr>", THEN mp, OF c]
    by auto
  show ?thesis
    by (intro conjI) (fact c t r)+
qed

section \<open>Reading a user\<close>

lemma select_by_id_member:
  "distinct (map row_id t) \<Longrightarrow> r \<in> set t \<Longrightarrow> select_by_id t (row_id r) = Some r"
  unfolding select_by_id_def by (induction t) (auto simp: image_iff)

text \<open>
  C9. While the database answers, in a table whose keys are proper, \<open>read_user\<close> of the
  id of a stored row returns that row as it is stored, the \<open>password\<close> column included,
  and leaves the store as it was.
\<close>

theorem read_user_returns_stored_row:
  assumes "available w" and "keys_ok (users w)" and "r \<in> set (users w)"
  shows "read_user (row_id r) w = (Inr r, w)
       \<and> (\<exists>v. fst (read_user (row_id r) w) = Inr v \<and> password (cols v) = password (cols r))"
proof -
  from assms have "in_int64 (row_id r)"
    by (simp add: keys_ok_def list_all_iff)
  moreover from assms have "select_by_id (users w) (row_id r) = Some r"
    by (simp add: keys_ok_def select_by_id_member)
  ultimately have "read_user (row_id r) w = (Inr r, w)"
    using assms(1) by (simp add: read_user_found)
  then show ?thesis by simp
qed

theorem read_user_returns_stored_row_witness:
  "available small_store \<and> keys_ok (users small_store)
   \<and> \<lparr>row_id = 1, cols = alice\<rparr> \<in> set (users small_store)
   \<and> \<lparr>row_id = 2, cols = bob\<rparr> \<in> set (users small_store)
   \<and> read_user 1 small_store = (Inr \<lparr>row_id = 1, cols = alice\<rparr>, small_store)
   \<and> read_user 2 small_store = (Inr \<lparr>row_id = 2, cols = bob\<rparr>, small_store)
   \<and> password alice = ''correct horse'' \<and> password bob = ''hunter2''"
proof -
  have a: "available small_store"
    by (simp add: small_store_def)
  have k: "keys_ok (users small_store)"
    by (simp add: small_store_def keys_ok_def in_int64_def)
  have m1: "\<lparr>row_id = 1, cols = alice\<rparr> \<in> set (users small_store)"
    and m2: "\<lparr>row_id = 2, cols = bob\<rparr> \<in> set (users small_store)"
    by (simp_all add: small_store_def)
  have r1: "read_user 1 small_store = (Inr \<lparr>row_id = 1, cols = alice\<rparr>, small_store)"
    using read_user_returns_stored_row [OF a k m1] by simp
  have r2: "read_user 2 small_store = (Inr \<lparr>row_id = 2, cols = bob\<rparr>, small_store)"
    using read_user_returns_stored_row [OF a k m2] by simp
  have p: "password alice = ''correct horse''" "password bob = ''hunter2''"
    by (simp_all add: alice_def bob_def)
  show ?thesis
    by (intro conjI) (fact a k m1 m2 r1 r2 p)+
qed

section \<open>Updating a user\<close>

text \<open>
  \<open>update_user_function\<close> looks nothing up before it updates. The unique index refuses an
  update that gives an existing row the address of another row, and an id that does not
  fit in 64 bits cannot be bound; both answer 500. Every other update, while the database
  answers, makes the function return the submitted fields with the given id, whether a
  row has that id or not.
\<close>

lemma update_by_id_absent: "select_by_id t i = None \<Longrightarrow> update_by_id t i f = t"
  unfolding select_by_id_def update_by_id_def
  by (induction t) (simp_all split: if_splits)

lemma email_conflict_absent: "select_by_id t i = None \<Longrightarrow> \<not> email_conflict t i e"
  by (simp add: select_by_id_def email_conflict_def find_None_iff list_ex_iff)

lemma update_user_function_ok:
  "available w \<Longrightarrow> in_int64 i \<Longrightarrow> \<not> email_conflict (users w) i (email u) \<Longrightarrow>
   update_user_function i u w
     = (Inr \<lparr>row_id = i, cols = u\<rparr>, w\<lparr>users := update_by_id (users w) i (\<lambda>_. u)\<rparr>)"
  by (simp add: update_user_function_def update_user_try_def update_user_row_def
      except_Exception_def)

lemma update_user_function_conflict:
  "available w \<Longrightarrow> in_int64 i \<Longrightarrow> email_conflict (users w) i (email u) \<Longrightarrow>
   update_user_function i u w = (Inl (HTTPException 500 (Str (StoreError Unique_violation))), w)"
  by (simp add: update_user_function_def update_user_try_def update_user_row_def
      except_Exception_def)

lemma update_user_function_overflow:
  "available w \<Longrightarrow> \<not> in_int64 i \<Longrightarrow>
   update_user_function i u w = (Inl (HTTPException 500 (Str (StoreError Int_overflow))), w)"
  by (simp add: update_user_function_def update_user_try_def update_user_row_def
      except_Exception_def)

text \<open>
  Whatever \<open>update_user\<close> returns is the submitted payload, a record of the four fields
  of \<open>UserCreate\<close>: the id that the function put into its dictionary is gone.
\<close>

lemma update_user_returns_payload:
  "fst (update_user i u w) = Inr v \<Longrightarrow> v = u"
  by (auto simp: update_user_def response_model_UserCreate_def update_user_function_def
      update_user_try_def except_Exception_def split: prod.splits sum.splits)

lemma update_user_ok:
  "available w \<Longrightarrow> in_int64 i \<Longrightarrow> \<not> email_conflict (users w) i (email u) \<Longrightarrow>
   update_user i u w = (Inr u, w\<lparr>users := update_by_id (users w) i (\<lambda>_. u)\<rparr>)"
  by (simp add: update_user_def response_model_UserCreate_def update_user_function_ok)

text \<open>
  C6. User Update should return the submitted fields plus the given id. On \<open>small_store\<close>,
  for user 1 and a fresh payload, the function of lines 114-120 returns the fields with
  the id, and the route, whose response model is \<open>UserCreate\<close> (line 113), returns the
  fields without it; the row of user 1 is rewritten and the row of user 2 is not.
\<close>

theorem update_user_drops_id:
  "fst (update_user_function 1 carol small_store) = Inr \<lparr>row_id = 1, cols = carol\<rparr>
   \<and> fst (update_user 1 carol small_store) = Inr carol
   \<and> users (snd (update_user 1 carol small_store))
       = [\<lparr>row_id = 1, cols = carol\<rparr>, \<lparr>row_id = 2, cols = bob\<rparr>]"
proof -
  have a: "available small_store"
    by (simp add: small_store_def)
  have c: "\<not> email_conflict (users small_store) 1 (email carol)"
    by (simp add: store_defs email_conflict_def)
  have u: "update_by_id (users small_store) 1 (\<lambda>_. carol)
      = [\<lparr>row_id = 1, cols = carol\<rparr>, \<lparr>row_id = 2, cols = bob\<rparr>]"
    by (simp add: small_store_def update_by_id_def)
  show ?thesis
    using a c u by (simp add: update_user_ok update_user_function_ok in_int64_small)
qed

section \<open>The status of an order\<close>

text \<open>
  The text of line 211 for a plain status is read back as the update that was meant: the
  prefix, one literal that ends at the apostrophe of the template, the \<^verbatim>\<open>WHERE\<close> clause
  and the decimal digits of the id. So for a plain status and an existing order whose id
  fits in 64 bits the handler returns the fetched row with the new status, and that status
  is stored in the rows of that id.
\<close>

lemma strip_prefix_append: "strip_prefix p (p @ s) = Some s"
  by (induction p) simp_all

lemma string_literal_step:
  "c \<noteq> apostrophe \<Longrightarrow> t \<noteq> [] \<Longrightarrow>
   string_literal (c # t) = map_option (\<lambda>(v, rest). (c # v, rest)) (string_literal t)"
  by (cases t) simp_all

lemma string_literal_closed:
  "(case rest of [] \<Rightarrow> True | d # _ \<Rightarrow> d \<noteq> apostrophe) \<Longrightarrow>
   string_literal (apostrophe # rest) = Some ([], rest)"
  by (cases rest) simp_all

lemma string_literal_plain:
  assumes "list_all (\<lambda>c. c \<noteq> apostrophe) s"
    and "case rest of [] \<Rightarrow> True | d # _ \<Rightarrow> d \<noteq> apostrophe"
  shows "string_literal (s @ apostrophe # rest) = Some (s, rest)"
  using assms
proof (induction s)
  case Nil
  then show ?case by (simp add: string_literal_closed)
next
  case (Cons c s)
  then have "string_literal (s @ apostrophe # rest) = Some (s, rest)" by simp
  moreover have "c \<noteq> apostrophe" using Cons.prems by simp
  ultimately show ?case
    by (simp add: string_literal_step)
qed

lemma is_digit_char_of: "d < 10 \<Longrightarrow> is_digit (char_of (48 + d :: nat))"
  by (simp add: is_digit_def)

lemma is_digit_not_minus: "is_digit c \<Longrightarrow> c \<noteq> CHR ''-''"
  by (auto simp: is_digit_def)

lemma is_digit_text_char: "is_digit c \<Longrightarrow> text_char c"
  by (simp add: is_digit_def text_char_def is_alnum_def)

lemma str_nat_digits: "list_all is_digit (str_nat n) \<and> str_nat n \<noteq> []"
proof (induction n rule: str_nat.induct)
  case (1 n)
  show ?case
  proof (cases "n < 10")
    case True
    then show ?thesis by (simp add: str_nat.simps [of n] is_digit_char_of)
  next
    case False
    with 1 show ?thesis by (simp add: str_nat.simps [of n] is_digit_char_of)
  qed
qed

lemma str_nat_value:
  "foldl (\<lambda>a c. 10 * a + (of_char c - 48)) 0 (str_nat n) = n"
proof (induction n rule: str_nat.induct)
  case (1 n)
  show ?case
  proof (cases "n < 10")
    case True
    then show ?thesis by (simp add: str_nat.simps [of n])
  next
    case False
    with 1 have "foldl (\<lambda>a c. 10 * a + (of_char c - 48)) 0 (str_nat (n div 10)) = n div 10"
      by simp
    moreover have "of_char (char_of (48 + n mod 10)) = (48 + n mod 10 :: nat)"
      by simp
    ultimately show ?thesis using False
      by (simp add: str_nat.simps [of n])
  qed
qed

lemma parse_nat_str_nat: "parse_nat (str_nat n) = Some n"
  using str_nat_digits [of n] by (simp add: parse_nat_def str_nat_value)

lemma parse_int_str_int: "parse_int (str_int i) = Some i"
proof (cases "i < 0")
  case True
  then show ?thesis by (simp add: str_int_def parse_nat_str_nat)
next
  case False
  obtain c s where cs: "str_nat (nat i) = c # s"
    using str_nat_digits [of "nat i"] by (cases "str_nat (nat i)") auto
  with str_nat_digits [of "nat i"] have "is_digit c" by simp
  then have "c \<noteq> CHR ''-''" by (rule is_digit_not_minus)
  then have "parse_int (c # s) = map_option int (parse_nat (c # s))" by simp
  with cs False show ?thesis
    using parse_nat_str_nat [of "nat i"] by (simp add: str_int_def)
qed


lemma str_int_chars: "list_all (\<lambda>c. c = CHR ''-'' \<or> is_digit c) (str_int i)"
proof -
  have "list_all (\<lambda>c. c = CHR ''-'' \<or> is_digit c) (str_nat n)" for n
    using str_nat_digits [of n] by (simp add: list_all_iff)
  then show ?thesis by (simp add: str_int_def)
qed

lemma str_int_text: "list_all text_char (str_int i)"
proof -
  have "text_char c" if "c \<in> set (str_int i)" for c
  proof -
    from that str_int_chars [of i] have "c = CHR ''-'' \<or> is_digit c"
      by (simp add: list_all_iff)
    then show ?thesis using is_digit_text_char [of c] by (auto simp: text_char_def)
  qed
  then show ?thesis by (simp add: list_all_iff)
qed

lemma plain_status_text: "plain_status s \<Longrightarrow> list_all text_char s"
  by (auto simp: plain_status_def text_char_def list_all_iff)

lemma plain_status_no_apostrophe:
  "plain_status s \<Longrightarrow> list_all (\<lambda>c. c \<noteq> apostrophe) s"
  by (auto simp: plain_status_def is_alnum_def list_all_iff)

lemma parse_statement_plain:
  assumes "plain_status s"
  shows "parse_statement (update_status_text s i) = Set_status s i"
proof -
  let ?P = "''UPDATE orders SET status='' @ [apostrophe]"
  let ?W = "'' WHERE id=''"
  have shape: "update_status_text s i = ?P @ (s @ apostrophe # (?W @ str_int i))"
    by (simp add: update_status_text_def)
  have special: "list_all text_char (update_status_text s i)"
    using plain_status_text [OF assms] str_int_text [of i]
    by (simp add: update_status_text_def text_char_def is_alnum_def)
  have body: "strip_prefix ?P (update_status_text s i) = Some (s @ apostrophe # (?W @ str_int i))"
    unfolding shape by (rule strip_prefix_append)
  have lit: "string_literal (s @ apostrophe # (?W @ str_int i)) = Some (s, ?W @ str_int i)"
    by (rule string_literal_plain [OF plain_status_no_apostrophe [OF assms]]) simp
  have nocomment: "\<not> line_comment (?W @ str_int i)"
    by (simp add: line_comment_def)
  have ds: "strip_prefix ?W (?W @ str_int i) = Some (str_int i)"
    by (rule strip_prefix_append)
  show ?thesis
    unfolding parse_statement_def
    by (simp only: special body lit nocomment ds parse_int_str_int
        if_True if_False option.case prod.case)
qed

lemma update_order_plain:
  assumes "available w" and "in_int64 i" and "select_by_id (orders w) i = Some r"
    and "plain_status s"
  shows "update_order engine i (Some s) w =
     (Inr (r\<lparr>cols := (cols r)\<lparr>status := s\<rparr>\<rparr>),
      w\<lparr>orders := update_by_id (orders w) i (\<lambda>c. c\<lparr>status := s\<rparr>)\<rparr>)"
  using assms
  by (simp add: update_order_def update_order_try_def except_Exception_def fetch_one_def
      execute_text_def parse_statement_plain)

lemma update_order_default:
  "update_order engine i None w = update_order engine i (Some ''pending'') w"
  by (simp add: update_order_def update_order_try_def)

lemma text_status_quote:
  "parse_statement (update_status_text status_quote 1) = Unterminated"
  by code_simp

lemma text_status_two_quotes:
  "parse_statement (update_status_text status_two_quotes 1)
     = Set_status (''it'' @ [apostrophe] @ ''s'') 1"
  by code_simp

lemma text_status_comment:
  "parse_statement (update_status_text status_comment 1) = Set_status_all ''x''"
  by code_simp

lemma text_shipped:
  "parse_statement (update_status_text ''shipped'' 1) = Set_status ''shipped'' 1"
  by code_simp

text \<open>A status with a percent sign in it is outside the texts that are read here.\<close>

lemma text_percent:
  "parse_statement (update_status_text ''100% done'' 1) = Unmodelled"
  by code_simp

lemma fetch_order1: "fetch_one small_store (orders small_store) 1 = Inr (Some order1)"
  by (simp add: fetch_one_def select_by_id_def small_store_def order1_def in_int64_small)

lemma update_order_small:
  "update_order engine 1 (Some s) small_store =
     (case execute_text engine (update_status_text s 1) small_store of
        (Inl e, w') \<Rightarrow> (Inl (HTTPException 500 (Str e)), w')
      | (Inr _, w') \<Rightarrow> (Inr (order1\<lparr>cols := (cols order1)\<lparr>status := s\<rparr>\<rparr>), w'))"
  by (simp add: update_order_def update_order_try_def fetch_order1 except_Exception_def
      split: prod.split sum.split)

text \<open>
  A status without special characters goes through: order 1 of \<open>small_store\<close> gets the
  status \<open>shipped\<close>, the handler returns the row it fetched with that status, and order 2
  stays as it was.
\<close>

lemma update_order_shipped:
  "fst (update_order engine 1 (Some ''shipped'') small_store)
     = Inr (order1\<lparr>cols := (cols order1)\<lparr>status := ''shipped''\<rparr>\<rparr>)
   \<and> orders (snd (update_order engine 1 (Some ''shipped'') small_store))
     = [order1\<lparr>cols := (cols order1)\<lparr>status := ''shipped''\<rparr>\<rparr>, order2]"
proof -
  have a: "available small_store"
    by (simp add: small_store_def)
  have o: "orders small_store = [order1, order2]"
    by (simp add: small_store_def)
  have r: "row_id order1 = 1" "row_id order2 = 2"
    by (simp_all add: order1_def order2_def)
  show ?thesis
    by (simp add: update_order_small execute_text_def text_shipped a o r update_by_id_def)
qed

text \<open>
  C3. An order update should store and return any status string literally, touch no other
  row and never fail in the statement. Line 211 pastes the string into the statement text,
  so on \<open>small_store\<close>, whatever the database does with texts outside the modelled ones:
  the status \<^verbatim>\<open>'\<close> leaves the literal open and the update answers 500; the status
  \<^verbatim>\<open>it''s\<close> is returned as it is and stored as \<^verbatim>\<open>it's\<close>; the status \<^verbatim>\<open>x' --\<close> comments the
  \<^verbatim>\<open>WHERE\<close> clause out and sets the status of order 2 as well.
\<close>

theorem update_order_status_not_literal:
  "fst (update_order engine 1 (Some status_quote) small_store)
     = Inl (HTTPException 500 (Str (StoreError Syntax_error)))
   \<and> fst (update_order engine 1 (Some status_two_quotes) small_store)
     = Inr (order1\<lparr>cols := (cols order1)\<lparr>status := status_two_quotes\<rparr>\<rparr>)
   \<and> map (status \<circ> cols)
        (orders (snd (update_order engine 1 (Some status_two_quotes) small_store)))
     = [''it'' @ [apostrophe] @ ''s'', ''paid'']
   \<and> status_two_quotes \<noteq> ''it'' @ [apostrophe] @ ''s''
   \<and> map (status \<circ> cols)
        (orders (snd (update_order engine 1 (Some status_comment) small_store)))
     = [''x'', ''x'']"
proof -
  have a: "available small_store"
    by (simp add: small_store_def)
  have o: "orders small_store = [order1, order2]"
    by (simp add: small_store_def)
  have 1: "fst (update_order engine 1 (Some status_quote) small_store)
     = Inl (HTTPException 500 (Str (StoreError Syntax_error)))"
    by (simp add: update_order_small execute_text_def a text_status_quote)
  have 2: "fst (update_order engine 1 (Some status_two_quotes) small_store)
     = Inr (order1\<lparr>cols := (cols order1)\<lparr>status := status_two_quotes\<rparr>\<rparr>)"
    by (simp add: update_order_small execute_text_def a text_status_two_quotes)
  have 3: "map (status \<circ> cols)
        (orders (snd (update_order engine 1 (Some status_two_quotes) small_store)))
     = [''it'' @ [apostrophe] @ ''s'', ''paid'']"
    by (simp add: update_order_small execute_text_def a o text_status_two_quotes
        update_by_id_def order1_def order2_def)
  have 4: "status_two_quotes \<noteq> ''it'' @ [apostrophe] @ ''s''"
    by (simp add: status_two_quotes_def)
  have 5: "map (status \<circ> cols)
        (orders (snd (update_order engine 1 (Some status_comment) small_store)))
     = [''x'', ''x'']"
    by (simp add: update_order_small execute_text_def a o text_status_comment)
  from 1 2 3 4 5 show ?thesis by blast
qed

section \<open>What a handler raises\<close>

lemma except_Exception_Inl_intro:
  "fst r = Inl e \<Longrightarrow> fst (except_Exception r) = Inl (HTTPException 500 (Str e))"
  by (cases r) (simp add: except_Exception_def)

lemma except_Exception_Inl:
  "fst (except_Exception r) = Inl x \<Longrightarrow> \<exists>e. fst r = Inl e \<and> x = HTTPException 500 (Str e)"
  by (cases r; cases "fst r") (auto simp: except_Exception_def)

lemma response_model_UserCreate_Inl:
  "fst r = Inl e \<Longrightarrow> fst (response_model_UserCreate r) = Inl e"
  by (cases r) (simp add: response_model_UserCreate_def)

lemma except_Exception_world: "snd (except_Exception r) = snd r"
  by (cases r; cases "fst r") (auto simp: except_Exception_def)

lemma read_user_try_world: "snd (read_user_try i w) = w"
  by (simp add: read_user_try_def split: sum.split option.split)

lemma read_user_raises:
  assumes "fst (read_user_try i w) = Inl e"
  shows "fst (read_user i w) = Inl (HTTPException 500 (Lit ''Internal Server Error''))
      \<and> stdout (snd (read_user i w))
          = stdout w @ [Cat (Lit ''Exception in read_user: '') (Str e)]"
proof -
  obtain w' where t: "read_user_try i w = (Inl e, w')"
    using assms by (cases "read_user_try i w") simp
  with read_user_try_world [of i w] have "w' = w" by simp
  with t show ?thesis by (simp add: read_user_def)
qed

text \<open>
  C10. Whenever the \<^verbatim>\<open>try\<close> block of a handler other than \<open>read_user\<close> raises an
  exception \<open>e\<close>, the handler raises a 500 whose detail is \<^verbatim>\<open>str(e)\<close>. Whenever the
  \<^verbatim>\<open>try\<close> block of \<open>read_user\<close> raises \<open>e\<close>, the handler raises a 500 with the fixed
  detail \<open>Internal Server Error\<close>, and \<open>e\<close> goes to standard output only.
\<close>

theorem internal_failure_detail:
  "(fst (create_user_try u w) = Inl e1 \<longrightarrow>
      fst (create_user u w) = Inl (HTTPException 500 (Str e1)))
   \<and> (fst (update_user_try i u w) = Inl e2 \<longrightarrow>
      fst (update_user i u w) = Inl (HTTPException 500 (Str e2)))
   \<and> (fst (delete_user_try i w) = Inl e3 \<longrightarrow>
      fst (delete_user i w) = Inl (HTTPException 500 (Str e3)))
   \<and> (fst (create_item_try it w) = Inl e4 \<longrightarrow>
      fst (create_item it w) = Inl (HTTPException 500 (Str e4)))
   \<and> (fst (read_item_try i w) = Inl e5 \<longrightarrow>
      fst (read_item i w) = Inl (HTTPException 500 (Str e5)))
   \<and> (fst (update_item_try i it w) = Inl e6 \<longrightarrow>
      fst (update_item i it w) = Inl (HTTPException 500 (Str e6)))
   \<and> (fst (delete_item_try i w) = Inl e7 \<longrightarrow>
      fst (delete_item i w) = Inl (HTTPException 500 (Str e7)))
   \<and> (fst (create_order_try now1 now2 oc w) = Inl e8 \<longrightarrow>
      fst (create_order now1 now2 oc w) = Inl (HTTPException 500 (Str e8)))
   \<and> (fst (read_order_try i w) = Inl e9 \<longrightarrow>
      fst (read_order i w) = Inl (HTTPException 500 (Str e9)))
   \<and> (fst (update_order_try engine i st w) = Inl e10 \<longrightarrow>
      fst (update_order engine i st w) = Inl (HTTPException 500 (Str e10)))
   \<and> (fst (delete_order_try i w) = Inl e11 \<longrightarrow>
      fst (delete_order i w) = Inl (HTTPException 500 (Str e11)))
   \<and> (fst (read_user_try i w) = Inl e12 \<longrightarrow>
      fst (read_user i w) = Inl (HTTPException 500 (Lit ''Internal Server Error''))
      \<and> stdout (snd (read_user i w))
          = stdout w @ [Cat (Lit ''Exception in read_user: '') (Str e12)])"
proof -
  have h1: "fst (create_user_try u w) = Inl e1 \<longrightarrow>
      fst (create_user u w) = Inl (HTTPException 500 (Str e1))"
    by (simp add: create_user_def except_Exception_Inl_intro)
  have h2: "fst (update_user_try i u w) = Inl e2 \<longrightarrow>
      fst (update_user i u w) = Inl (HTTPException 500 (Str e2))"
    by (simp add: update_user_def update_user_function_def response_model_UserCreate_Inl
        except_Exception_Inl_intro)
  have h3: "fst (delete_user_try i w) = Inl e3 \<longrightarrow>
      fst (delete_user i w) = Inl (HTTPException 500 (Str e3))"
    by (simp add: delete_user_def except_Exception_Inl_intro)
  have h4: "fst (create_item_try it w) = Inl e4 \<longrightarrow>
      fst (create_item it w) = Inl (HTTPException 500 (Str e4))"
    by (simp add: create_item_def except_Exception_Inl_intro)
  have h5: "fst (read_item_try i w) = Inl e5 \<longrightarrow>
      fst (read_item i w) = Inl (HTTPException 500 (Str e5))"
    by (simp add: read_item_def except_Exception_Inl_intro)
  have h6: "fst (update_item_try i it w) = Inl e6 \<longrightarrow>
      fst (update_item i it w) = Inl (HTTPException 500 (Str e6))"
    by (simp add: update_item_def except_Exception_Inl_intro)
  have h7: "fst (delete_item_try i w) = Inl e7 \<longrightarrow>
      fst (delete_item i w) = Inl (HTTPException 500 (Str e7))"
    by (simp add: delete_item_def except_Exception_Inl_intro)
  have h8: "fst (create_order_try now1 now2 oc w) = Inl e8 \<longrightarrow>
      fst (create_order now1 now2 oc w) = Inl (HTTPException 500 (Str e8))"
    by (simp add: create_order_def except_Exception_Inl_intro)
  have h9: "fst (read_order_try i w) = Inl e9 \<longrightarrow>
      fst (read_order i w) = Inl (HTTPException 500 (Str e9))"
    by (simp add: read_order_def except_Exception_Inl_intro)
  have h10: "fst (update_order_try engine i st w) = Inl e10 \<longrightarrow>
      fst (update_order engine i st w) = Inl (HTTPException 500 (Str e10))"
    by (simp add: update_order_def except_Exception_Inl_intro)
  have h11: "fst (delete_order_try i w) = Inl e11 \<longrightarrow>
      fst (delete_order i w) = Inl (HTTPException 500 (Str e11))"
    by (simp add: delete_order_def except_Exception_Inl_intro)
  have h12: "fst (read_user_try i w) = Inl e12 \<longrightarrow>
      fst (read_user i w) = Inl (HTTPException 500 (Lit ''Internal Server Error''))
      \<and> stdout (snd (read_user i w))
          = stdout w @ [Cat (Lit ''Exception in read_user: '') (Str e12)]"
    by (rule impI) (rule read_user_raises)
  show ?thesis
    by (intro conjI) (fact h1 h2 h3 h4 h5 h6 h7 h8 h9 h10 h11 h12)+
qed

theorem internal_failure_detail_witness:
  "fst (create_user_try alice small_store) = Inl (StoreError Unique_violation)
   \<and> fst (create_user alice small_store) = Inl (HTTPException 500 (Str (StoreError Unique_violation)))
   \<and> fst (update_user_try far_id carol small_store) = Inl (StoreError Int_overflow)
   \<and> fst (update_user far_id carol small_store) = Inl (HTTPException 500 (Str (StoreError Int_overflow)))
   \<and> fst (delete_user_try far_id small_store) = Inl (StoreError Int_overflow)
   \<and> fst (delete_user far_id small_store) = Inl (HTTPException 500 (Str (StoreError Int_overflow)))
   \<and> fst (create_item_try widget down_store) = Inl (StoreError Unreachable)
   \<and> fst (create_item widget down_store) = Inl (HTTPException 500 (Str (StoreError Unreachable)))
   \<and> fst (read_item_try 7 small_store) = Inl (HTTPException 404 (Lit ''Item not found''))
   \<and> fst (read_item 7 small_store) = Inl (HTTPException 500 (Str (HTTPException 404 (Lit ''Item not found''))))
   \<and> fst (update_item_try far_id widget small_store) = Inl (StoreError Int_overflow)
   \<and> fst (update_item far_id widget small_store) = Inl (HTTPException 500 (Str (StoreError Int_overflow)))
   \<and> fst (delete_item_try 7 small_store) = Inl (HTTPException 404 (Lit ''Item not found''))
   \<and> fst (delete_item 7 small_store) = Inl (HTTPException 500 (Str (HTTPException 404 (Lit ''Item not found''))))
   \<and> fst (create_order_try 5 7 far_order small_store) = Inl (StoreError Int_overflow)
   \<and> fst (create_order 5 7 far_order small_store) = Inl (HTTPException 500 (Str (StoreError Int_overflow)))
   \<and> fst (read_order_try 7 small_store) = Inl (HTTPException 404 (Lit ''Order not found''))
   \<and> fst (read_order 7 small_store) = Inl (HTTPException 500 (Str (HTTPException 404 (Lit ''Order not found''))))
   \<and> fst (update_order_try idle_engine 1 (Some status_quote) small_store) = Inl (StoreError Syntax_error)
   \<and> fst (update_order idle_engine 1 (Some status_quote) small_store) = Inl (HTTPException 500 (Str (StoreError Syntax_error)))
   \<and> fst (delete_order_try 7 small_store) = Inl (HTTPException 404 (Lit ''Order not found''))
   \<and> fst (delete_order 7 small_store) = Inl (HTTPException 500 (Str (HTTPException 404 (Lit ''Order not found''))))
   \<and> fst (read_user_try 7 small_store) = Inl (HTTPException 404 (Lit ''User not found''))
   \<and> fst (read_user 7 small_store) = Inl (HTTPException 500 (Lit ''Internal Server Error''))
   \<and> stdout (snd (read_user 7 small_store))
       = [Cat (Lit ''Exception in read_user: '') (Str (HTTPException 404 (Lit ''User not found'')))]"
proof -
  have s: "available small_store" "stdout small_store = []"
    "email_taken (users small_store) (email alice)"
    by (simp_all add: store_defs email_taken_def)
  have d: "available down_store = False"
    by (simp add: down_store_def)
  have f: "in_int64 far_id = False" "in_int64 7" "in_int64 (user_id far_order) = False"
    by (simp_all add: far_id_def far_order_def in_int64_def)
  have n: "select_by_id (users small_store) 7 = None"
    "select_by_id (items small_store) 7 = None"
    "select_by_id (orders small_store) 7 = None"
    by (simp_all add: store_defs select_by_id_def)
  have t_cu: "fst (create_user_try alice small_store) = Inl (StoreError Unique_violation)"
    by (simp add: create_user_try_def insert_user_def s d f)
  have t_uu: "fst (update_user_try far_id carol small_store) = Inl (StoreError Int_overflow)"
    by (simp add: update_user_try_def update_user_row_def s d f)
  have t_du: "fst (delete_user_try far_id small_store) = Inl (StoreError Int_overflow)"
    by (simp add: delete_user_try_def delete_user_row_def s d f)
  have t_ci: "fst (create_item_try widget down_store) = Inl (StoreError Unreachable)"
    by (simp add: create_item_try_def insert_item_def s d f)
  have t_ri: "fst (read_item_try 7 small_store) = Inl (HTTPException 404 (Lit ''Item not found''))"
    by (simp add: read_item_try_def fetch_one_def s f n)
  have t_ui: "fst (update_item_try far_id widget small_store) = Inl (StoreError Int_overflow)"
    by (simp add: update_item_try_def update_item_row_def s d f)
  have t_di: "fst (delete_item_try 7 small_store) = Inl (HTTPException 404 (Lit ''Item not found''))"
    by (simp add: delete_item_try_def fetch_one_def s f n)
  have t_co: "fst (create_order_try 5 7 far_order small_store) = Inl (StoreError Int_overflow)"
    by (simp add: create_order_try_def insert_order_def s d f)
  have t_ro: "fst (read_order_try 7 small_store) = Inl (HTTPException 404 (Lit ''Order not found''))"
    by (simp add: read_order_try_def fetch_one_def s f n)
  have t_uo: "fst (update_order_try idle_engine 1 (Some status_quote) small_store) = Inl (StoreError Syntax_error)"
    by (simp add: update_order_try_def fetch_order1 execute_text_def s text_status_quote)
  have t_do: "fst (delete_order_try 7 small_store) = Inl (HTTPException 404 (Lit ''Order not found''))"
    by (simp add: delete_order_try_def fetch_one_def s f n)
  have t_ru: "fst (read_user_try 7 small_store) = Inl (HTTPException 404 (Lit ''User not found''))"
    by (simp add: read_user_try_def fetch_one_def s f n)
  note a = internal_failure_detail
    [where w = small_store and u = alice and i = 7 and oc = far_order
       and ?now1.0 = 5 and ?now2.0 = 7
       and ?e1.0 = "StoreError Unique_violation"
       and ?e5.0 = "HTTPException 404 (Lit ''Item not found'')"
       and ?e7.0 = "HTTPException 404 (Lit ''Item not found'')"
       and ?e8.0 = "StoreError Int_overflow"
       and ?e9.0 = "HTTPException 404 (Lit ''Order not found'')"
       and ?e11.0 = "HTTPException 404 (Lit ''Order not found'')"
       and ?e12.0 = "HTTPException 404 (Lit ''User not found'')"]
  note b = internal_failure_detail
    [where w = small_store and u = carol and it = widget and i = far_id
       and ?e2.0 = "StoreError Int_overflow" and ?e3.0 = "StoreError Int_overflow"
       and ?e6.0 = "StoreError Int_overflow"]
  note c = internal_failure_detail
    [where w = down_store and it = widget and ?e4.0 = "StoreError Unreachable"]
  note g = internal_failure_detail
    [where w = small_store and engine = idle_engine and i = 1 and st = "Some status_quote"
       and ?e10.0 = "StoreError Syntax_error"]
  have h_cu: "fst (create_user alice small_store) = Inl (HTTPException 500 (Str (StoreError Unique_violation)))"
    using a [THEN conjunct1] t_cu by simp
  have h_uu: "fst (update_user far_id carol small_store) = Inl (HTTPException 500 (Str (StoreError Int_overflow)))"
    using b [THEN conjunct2, THEN conjunct1] t_uu by simp
  have h_du: "fst (delete_user far_id small_store) = Inl (HTTPException 500 (Str (StoreError Int_overflow)))"
    using b [THEN conjunct2, THEN conjunct2, THEN conjunct1] t_du by simp
  have h_ci: "fst (create_item widget down_store) = Inl (HTTPException 500 (Str (StoreError Unreachable)))"
    using c [THEN conjunct2, THEN conjunct2, THEN conjunct2, THEN conjunct1] t_ci by simp
  have h_ri: "fst (read_item 7 small_store) = Inl (HTTPException 500 (Str (HTTPException 404 (Lit ''Item not found''))))"
    using a [THEN conjunct2, THEN conjunct2, THEN conjunct2, THEN conjunct2, THEN conjunct1] t_ri by simp
  have h_ui: "fst (update_item far_id widget small_store) = Inl (HTTPException 500 (Str (StoreError Int_overflow)))"
    using b [THEN conjunct2, THEN conjunct2, THEN conjunct2, THEN conjunct2, THEN conjunct2, THEN conjunct1] t_ui by simp
  have h_di: "fst (delete_item 7 small_store) = Inl (HTTPException 500 (Str (HTTPException 404 (Lit ''Item not found''))))"
    using a [THEN conjunct2, THEN conjunct2, THEN conjunct2, THEN conjunct2, THEN conjunct2, THEN conjunct2, THEN conjunct1] t_di by simp
  have h_co: "fst (create_order 5 7 far_order small_store) = Inl (HTTPException 500 (Str (StoreError Int_overflow)))"
    using a [THEN conjunct2, THEN conjunct2, THEN conjunct2, THEN conjunct2, THEN conjunct2, THEN conjunct2, THEN conjunct2, THEN conjunct1] t_co by simp
  have h_ro: "fst (read_order 7 small_store) = Inl (HTTPException 500 (Str (HTTPException 404 (Lit ''Order not found''))))"
    using a [THEN conjunct2, THEN conjunct2, THEN conjunct2, THEN conjunct2, THEN conjunct2, THEN conjunct2, THEN conjunct2, THEN conjunct2, THEN conjunct1] t_ro by simp
  have h_uo: "fst (update_order idle_engine 1 (Some status_quote) small_store) = Inl (HTTPException 500 (Str (StoreError Syntax_error)))"
    using g [THEN conjunct2, THEN conjunct2, THEN conjunct2, THEN conjunct2, THEN conjunct2, THEN conjunct2, THEN conjunct2, THEN conjunct2, THEN conjunct2, THEN conjunct1] t_uo by simp
  have h_do: "fst (delete_order 7 small_store) = Inl (HTTPException 500 (Str (HTTPException 404 (Lit ''Order not found''))))"
    using a [THEN conjunct2, THEN conjunct2, THEN conjunct2, THEN conjunct2, THEN conjunct2, THEN conjunct2, THEN conjunct2, THEN conjunct2, THEN conjunct2, THEN conjunct2, THEN conjunct1] t_do by simp
  have h_ru: "fst (read_user 7 small_store) = Inl (HTTPException 500 (Lit ''Internal Server Error''))
      \<and> stdout (snd (read_user 7 small_store))
          = stdout small_store @ [Cat (Lit ''Exception in read_user: '') (Str (HTTPException 404 (Lit ''User not found'')))]"
    using a [THEN conjunct2, THEN conjunct2, THEN conjunct2, THEN conjunct2, THEN conjunct2, THEN conjunct2, THEN conjunct2, THEN conjunct2, THEN conjunct2, THEN conjunct2, THEN conjunct2] t_ru by simp
  then have r1: "fst (read_user 7 small_store)
        = Inl (HTTPException 500 (Lit ''Internal Server Error''))"
    and r2: "stdout (snd (read_user 7 small_store))
       = [Cat (Lit ''Exception in read_user: '') (Str (HTTPException 404 (Lit ''User not found'')))]"
    using s by simp_all
  show ?thesis
    by (intro conjI) (fact t_cu h_cu t_uu h_uu t_du h_du t_ci h_ci t_ri h_ri t_ui h_ui t_di h_di t_co h_co t_ro h_ro t_uo h_uo t_do h_do t_ru r1 r2)+
qed

end
